theory Spec2Isabelle
  imports Main "HOL-Library.Word" "HOL-Library.Sublist"
begin

unbundle bit_operations_syntax

section \<open>The SIP Toast update launcher (build/update-launcher.c)\<close>

text \<open>
  The launcher is one C function, \<^verbatim>\<open>main\<close>, that talks to Windows through seven API
  calls. The embedding keeps the C text of \<^verbatim>\<open>main\<close> statement by statement and makes
  the operating system explicit: an \<open>os\<close> value holds every answer Windows can give to
  the launcher, and a \<open>world\<close> value is threaded through the calls and records, in
  order, every API call that has an effect outside the launcher.
\<close>

subsection \<open>Platform constants and types (windows.h)\<close>

text \<open>
  \<^verbatim>\<open>windows.h\<close> belongs to the Windows SDK, not to the repository; the constants below
  carry the values the SDK headers give them.
\<close>

type_synonym DWORD = "32 word"
type_synonym HANDLE = nat

definition MAX_PATH :: nat where
  "MAX_PATH = 260"

definition INFINITE :: DWORD where
  "INFINITE = 0xFFFFFFFF"

definition CREATE_NO_WINDOW :: DWORD where
  "CREATE_NO_WINDOW = 0x08000000"

definition NORMAL_PRIORITY_CLASS :: DWORD where
  "NORMAL_PRIORITY_CLASS = 0x00000020"

definition CREATE_NEW_CONSOLE :: DWORD where
  "CREATE_NEW_CONSOLE = 0x00000010"

definition MB_OK :: DWORD where
  "MB_OK = 0x00000000"

definition MB_ICONERROR :: DWORD where
  "MB_ICONERROR = 0x00000010"

definition STILL_ACTIVE :: DWORD where
  "STILL_ACTIVE = 259"

text \<open>
  \<^verbatim>\<open>PROCESS_INFORMATION\<close>: the launcher reads only the two handles (the process and
  thread identifiers of the structure are never used).
\<close>

record PROCESS_INFORMATION =
  hProcess :: HANDLE
  hThread :: HANDLE

subsection \<open>The operating system as seen by the launcher\<close>

text \<open>
  \<^item> \<open>module_file_name\<close>: the full path of the running executable, as
    \<^verbatim>\<open>GetModuleFileNameA(NULL, ...)\<close> reports it (the call is taken to succeed; the
    source has no branch for its failure).
  \<^item> \<open>create_process k cmd flags dir\<close>: the answer to the launcher's \<open>k\<close>-th call of
    \<^verbatim>\<open>CreateProcessA\<close> (counted from 0) with command line \<open>cmd\<close>, creation flags
    \<open>flags\<close> and current directory \<open>dir\<close>: \<open>Inr pi\<close> when the process is created,
    \<open>Inl e\<close> when the call fails with last-error code \<open>e\<close>.
  \<^item> \<open>process_exit h\<close>: the fate of the process behind handle \<open>h\<close>: \<open>Some c\<close> when it
    terminates with exit code \<open>c\<close>, \<open>None\<close> when it never terminates.
\<close>

record os =
  module_file_name :: string
  create_process :: "nat \<Rightarrow> string \<Rightarrow> DWORD \<Rightarrow> string \<Rightarrow> DWORD + PROCESS_INFORMATION"
  process_exit :: "HANDLE \<Rightarrow> DWORD option"

text \<open>
  The calls with an outside effect, with the arguments that vary between the call sites
  (every other argument of \<^verbatim>\<open>CreateProcessA\<close> is \<^verbatim>\<open>NULL\<close>, \<^verbatim>\<open>FALSE\<close> or the zeroed
  \<^verbatim>\<open>STARTUPINFOA\<close> at both sites).
\<close>

datatype event =
    EvCreateProcess string DWORD string "DWORD + PROCESS_INFORMATION"
  | EvWait HANDLE DWORD
  | EvGetExitCode HANDLE DWORD
  | EvCloseHandle HANDLE
  | EvMessageBox string string DWORD

record world =
  events :: "event list"
  spawn_count :: nat
  last_error :: DWORD

definition world0 :: world where
  "world0 = \<lparr>events = [], spawn_count = 0, last_error = 0\<rparr>"

definition emit :: "event \<Rightarrow> world \<Rightarrow> world" where
  "emit e w = w\<lparr>events := events w @ [e]\<rparr>"

subsection \<open>C strings and the C library\<close>

text \<open>
  A \<open>string\<close> is the content of a NUL-terminated buffer up to the NUL. The backslash
  and the double quote are written as character codes.
\<close>

definition bslash :: char where
  "bslash = CHR 0x5C"

definition dquote :: char where
  "dquote = CHR 0x22"

definition c_str :: "string \<Rightarrow> string" where
  "c_str bytes = takeWhile (\<lambda>c. c \<noteq> CHR 0x00) bytes"

text \<open>
  \<^verbatim>\<open>strrchr(s, c)\<close>: the position of the last occurrence of \<open>c\<close> in \<open>s\<close>, or \<open>None\<close>
  for the null pointer.
\<close>

fun strrchr :: "string \<Rightarrow> char \<Rightarrow> nat option" where
  "strrchr [] c = None"
| "strrchr (x # xs) c =
     (case strrchr xs c of
        Some i \<Rightarrow> Some (Suc i)
      | None \<Rightarrow> (if x = c then Some 0 else None))"

text \<open>
  \<^verbatim>\<open>snprintf(buf, n, fmt, ...)\<close> (C99): of the formatted text \<open>s\<close>, at most \<open>n - 1\<close>
  characters are stored, followed by a NUL; nothing is stored when \<open>n = 0\<close>.
\<close>

definition snprintf :: "nat \<Rightarrow> string \<Rightarrow> string" where
  "snprintf n s = take (n - 1) s"

text \<open>The conversion \<^verbatim>\<open>%lu\<close>: an unsigned number in decimal.\<close>

definition digit :: "nat \<Rightarrow> char" where
  "digit d = ''0123456789'' ! d"

fun fmt_lu :: "nat \<Rightarrow> string" where
  "fmt_lu n = (if n < 10 then [digit n] else fmt_lu (n div 10) @ [digit (n mod 10)])"

declare fmt_lu.simps [simp del]

subsection \<open>The Windows API calls of the launcher\<close>

text \<open>
  \<^verbatim>\<open>GetModuleFileNameA(NULL, buf, n)\<close> stores the path of the executable, cut to
  \<open>n - 1\<close> characters and NUL-terminated when it does not fit.
\<close>

definition GetModuleFileNameA :: "os \<Rightarrow> nat \<Rightarrow> string" where
  "GetModuleFileNameA sys nSize = take (nSize - 1) (c_str (module_file_name sys))"

text \<open>
  \<^verbatim>\<open>CreateProcessA\<close>: nonzero (\<open>Some pi\<close>, with \<^verbatim>\<open>pi\<close> filled in) on success; zero
  (\<open>None\<close>) on failure, with the thread's last-error code set.
\<close>

definition CreateProcessA ::
  "os \<Rightarrow> string \<Rightarrow> DWORD \<Rightarrow> string \<Rightarrow> world \<Rightarrow> PROCESS_INFORMATION option \<times> world" where
  "CreateProcessA sys lpCommandLine dwCreationFlags lpCurrentDirectory w =
     (let r = create_process sys (spawn_count w) lpCommandLine dwCreationFlags lpCurrentDirectory;
          w' = emit (EvCreateProcess lpCommandLine dwCreationFlags lpCurrentDirectory r)
                 (w\<lparr>spawn_count := Suc (spawn_count w)\<rparr>)
      in case r of
           Inl e \<Rightarrow> (None, w'\<lparr>last_error := e\<rparr>)
         | Inr pi \<Rightarrow> (Some pi, w'))"

text \<open>
  \<^verbatim>\<open>WaitForSingleObject(h, INFINITE)\<close> returns when the process behind \<open>h\<close> has
  terminated, and never when it does not terminate: \<open>True\<close> says that the call returns.
  With a finite timeout the call returns in either case.
\<close>

definition WaitForSingleObject :: "os \<Rightarrow> HANDLE \<Rightarrow> DWORD \<Rightarrow> world \<Rightarrow> bool \<times> world" where
  "WaitForSingleObject sys h dwMilliseconds w =
     (if dwMilliseconds = INFINITE \<and> process_exit sys h = None
      then (False, emit (EvWait h dwMilliseconds) w)
      else (True, emit (EvWait h dwMilliseconds) w))"

definition GetExitCodeProcess :: "os \<Rightarrow> HANDLE \<Rightarrow> world \<Rightarrow> DWORD \<times> world" where
  "GetExitCodeProcess sys h w =
     (let c = (case process_exit sys h of Some c \<Rightarrow> c | None \<Rightarrow> STILL_ACTIVE)
      in (c, emit (EvGetExitCode h c) w))"

definition CloseHandle :: "HANDLE \<Rightarrow> world \<Rightarrow> world" where
  "CloseHandle h w = emit (EvCloseHandle h) w"

definition GetLastError :: "world \<Rightarrow> DWORD" where
  "GetLastError w = last_error w"

text \<open>
  \<^verbatim>\<open>MessageBoxA\<close> with \<^verbatim>\<open>MB_OK\<close> shows a modal dialog and returns when the user has
  dismissed it; the launcher ignores the return value. The model records the dialog and
  goes on, that is, the user is taken to dismiss it.
\<close>

definition MessageBoxA :: "string \<Rightarrow> string \<Rightarrow> DWORD \<Rightarrow> world \<Rightarrow> world" where
  "MessageBoxA lpText lpCaption uType w = emit (EvMessageBox lpText lpCaption uType) w"

subsection \<open>main\<close>

text \<open>
  The result is the launcher's exit code, \<open>None\<close> when \<^verbatim>\<open>main\<close> never returns, and
  the world it leaves behind. The local \<^verbatim>\<open>exitCode\<close> is assigned and never read, as in
  the source.
\<close>

definition main :: "os \<Rightarrow> int \<Rightarrow> string list \<Rightarrow> int option \<times> world" where
  "main sys argc argv =
     (let appPath = GetModuleFileNameA sys MAX_PATH;
          lastSlash = strrchr appPath bslash;
          appPath = (case lastSlash of Some i \<Rightarrow> take i appPath | None \<Rightarrow> appPath);
          batchPath = snprintf MAX_PATH (appPath @ bslash # ''update.bat'');
          cmdLine = snprintf (MAX_PATH * 2) (''cmd /c '' @ dquote # batchPath @ [dquote]);
          (created, w) = CreateProcessA sys cmdLine CREATE_NO_WINDOW appPath world0;
          (returned, w) =
            (case created of
               Some pi \<Rightarrow>
                 (let (returned, w) = WaitForSingleObject sys (hProcess pi) INFINITE w
                  in if returned
                     then (let (exitCode, w) = GetExitCodeProcess sys (hProcess pi) w;
                               w = CloseHandle (hProcess pi) w;
                               w = CloseHandle (hThread pi) w
                           in (True, w))
                     else (False, w))
             | None \<Rightarrow> (True, w))
      in if \<not> returned then (None, w)
         else
           (let cmdLine = snprintf (MAX_PATH * 2) (dquote # appPath @ bslash # ''SIP Toast.exe'' @ [dquote]);
                (created, w) =
                  CreateProcessA sys cmdLine (NORMAL_PRIORITY_CLASS OR CREATE_NEW_CONSOLE) appPath w
            in case created of
                 Some pi \<Rightarrow>
                   (let w = CloseHandle (hProcess pi) w;
                        w = CloseHandle (hThread pi) w
                    in (Some 0, w))
               | None \<Rightarrow>
                   (let errorMsg = snprintf 256
                          (''Failed to launch SIP Toast.exe (Error: '' @ fmt_lu (unat (GetLastError w)) @ '')'');
                        w = MessageBoxA errorMsg ''Update Launcher Error'' (MB_OK OR MB_ICONERROR) w
                    in (Some 1, w))))"

subsection \<open>The strings and calls of a run\<close>

text \<open>
  Names for what \<^verbatim>\<open>main\<close> computes on the way: the install directory (lines 21 to
  27), the strings it formats (lines 30, 34, 62 and 88), the answers of the system to its
  two \<^verbatim>\<open>CreateProcessA\<close> calls and the events these calls leave.
\<close>


definition install_directory :: "os \<Rightarrow> string" where
  "install_directory sys =
     (let appPath = GetModuleFileNameA sys MAX_PATH
      in case strrchr appPath bslash of Some i \<Rightarrow> take i appPath | None \<Rightarrow> appPath)"

definition batchPath_of :: "string \<Rightarrow> string" where
  "batchPath_of appPath = snprintf MAX_PATH (appPath @ bslash # ''update.bat'')"

definition update_cmdLine :: "string \<Rightarrow> string" where
  "update_cmdLine appPath =
     snprintf (MAX_PATH * 2) (''cmd /c '' @ dquote # batchPath_of appPath @ [dquote])"

definition main_cmdLine :: "string \<Rightarrow> string" where
  "main_cmdLine appPath =
     snprintf (MAX_PATH * 2) (dquote # appPath @ bslash # ''SIP Toast.exe'' @ [dquote])"

definition errorMsg_of :: "DWORD \<Rightarrow> string" where
  "errorMsg_of e =
     snprintf 256 (''Failed to launch SIP Toast.exe (Error: '' @ fmt_lu (unat e) @ '')'')"

definition update_result :: "os \<Rightarrow> DWORD + PROCESS_INFORMATION" where
  "update_result sys =
     create_process sys 0 (update_cmdLine (install_directory sys)) CREATE_NO_WINDOW
       (install_directory sys)"

definition main_result :: "os \<Rightarrow> DWORD + PROCESS_INFORMATION" where
  "main_result sys =
     create_process sys 1 (main_cmdLine (install_directory sys))
       (NORMAL_PRIORITY_CLASS OR CREATE_NEW_CONSOLE) (install_directory sys)"

definition update_event :: "os \<Rightarrow> event" where
  "update_event sys =
     EvCreateProcess (update_cmdLine (install_directory sys)) CREATE_NO_WINDOW
       (install_directory sys) (update_result sys)"

definition main_event :: "os \<Rightarrow> event" where
  "main_event sys =
     EvCreateProcess (main_cmdLine (install_directory sys))
       (NORMAL_PRIORITY_CLASS OR CREATE_NEW_CONSOLE) (install_directory sys) (main_result sys)"

definition error_dialog :: "DWORD \<Rightarrow> event" where
  "error_dialog e = EvMessageBox (errorMsg_of e) ''Update Launcher Error'' (MB_OK OR MB_ICONERROR)"

definition trace :: "os \<Rightarrow> int \<Rightarrow> string list \<Rightarrow> event list" where
  "trace sys argc argv = events (snd (main sys argc argv))"

definition exit_code :: "os \<Rightarrow> int \<Rightarrow> string list \<Rightarrow> int option" where
  "exit_code sys argc argv = fst (main sys argc argv)"

subsection \<open>Vocabulary for the properties\<close>

text \<open>
  What an observer sees of a run: the dialogs among the events, the events with the
  exit code of the update step blanked, and the handles that are open after a sequence
  of events (a created process opens its two handles, \<^verbatim>\<open>CloseHandle\<close> releases one).
\<close>

fun is_dialog :: "event \<Rightarrow> bool" where
  "is_dialog (EvMessageBox lpText lpCaption uType) = True"
| "is_dialog e = False"

fun erase_exit_code :: "event \<Rightarrow> event" where
  "erase_exit_code (EvGetExitCode h c) = EvGetExitCode h 0"
| "erase_exit_code e = e"

fun open_handles :: "event list \<Rightarrow> HANDLE list \<Rightarrow> HANDLE list" where
  "open_handles [] hs = hs"
| "open_handles (EvCreateProcess cmd fl dir (Inr pi) # tr) hs =
     open_handles tr (hs @ [hProcess pi, hThread pi])"
| "open_handles (EvCloseHandle h # tr) hs = open_handles tr (remove1 h hs)"
| "open_handles (e # tr) hs = open_handles tr hs"

text \<open>The number a decimal numeral denotes, to read \<^verbatim>\<open>%lu\<close> output back.\<close>

definition decimal_value :: "string \<Rightarrow> nat" where
  "decimal_value s = foldl (\<lambda>a c. 10 * a + (of_char c - 48)) 0 s"

subsection \<open>Example systems\<close>

text \<open>
  The launcher installed as \<^verbatim>\<open>C:\Apps\Tool\update.exe\<close>; the answers of the two
  \<^verbatim>\<open>CreateProcessA\<close> calls and the fate of every process are parameters.
\<close>

definition tool_os ::
  "DWORD + PROCESS_INFORMATION \<Rightarrow> DWORD option \<Rightarrow> DWORD + PROCESS_INFORMATION \<Rightarrow> os" where
  "tool_os upd fate app =
     \<lparr>module_file_name = ''C:'' @ bslash # ''Apps'' @ bslash # ''Tool'' @ bslash # ''update.exe'',
      create_process = (\<lambda>k cmd fl dir. if k = 0 then upd else app),
      process_exit = (\<lambda>h. fate)\<rparr>"

text \<open>
  An install directory of 253 characters, \<^verbatim>\<open>C:\aaa...a\<close>, holding \<^verbatim>\<open>u.exe\<close>: the path of
  the executable has 259 characters, the longest that fits \<^verbatim>\<open>MAX_PATH\<close>. Neither
  process can be started.
\<close>

definition long_dir :: string where
  "long_dir = ''C:'' @ bslash # replicate 250 (CHR ''a'')"

definition long_path_os :: os where
  "long_path_os =
     \<lparr>module_file_name = long_dir @ bslash # ''u.exe'',
      create_process = (\<lambda>k cmd fl dir. Inl 2),
      process_exit = (\<lambda>h. None)\<rparr>"

text \<open>A module path without any backslash.\<close>

definition bare_os :: os where
  "bare_os =
     \<lparr>module_file_name = ''update.exe'',
      create_process = (\<lambda>k cmd fl dir. if k = 0 then Inl 2 else Inr \<lparr>hProcess = 12, hThread = 16\<rparr>),
      process_exit = (\<lambda>h. None)\<rparr>"

text \<open>The handles the example systems hand out, and the install directory \<^verbatim>\<open>C:\Apps\Tool\<close>.\<close>

definition pi_update :: PROCESS_INFORMATION where
  "pi_update = \<lparr>hProcess = 4, hThread = 8\<rparr>"

definition pi_app :: PROCESS_INFORMATION where
  "pi_app = \<lparr>hProcess = 12, hThread = 16\<rparr>"

definition tool_dir :: string where
  "tool_dir = ''C:'' @ bslash # ''Apps'' @ bslash # ''Tool''"

section \<open>Properties\<close>

subsection \<open>The five runs of the launcher\<close>

text \<open>
  The system decides three things: whether the update step starts, whether it ever
  terminates, and whether the main application starts. That gives five runs; each lemma
  evaluates \<^verbatim>\<open>main\<close> on one of them.
\<close>

lemmas api_defs = CreateProcessA_def WaitForSingleObject_def GetExitCodeProcess_def
  CloseHandle_def MessageBoxA_def GetLastError_def emit_def world0_def

lemmas run_defs = main_def install_directory_def batchPath_of_def update_cmdLine_def
  main_cmdLine_def errorMsg_of_def update_result_def main_result_def update_event_def
  main_event_def error_dialog_def Let_def

lemma main_update_failed_main_failed:
  assumes "update_result sys = Inl e" "main_result sys = Inl e'"
  shows "main sys argc argv =
    (Some 1, \<lparr>events = [update_event sys, main_event sys, error_dialog e'], spawn_count = 2, last_error = e'\<rparr>)"
  using assms by (simp add: run_defs api_defs)

lemma main_update_failed_main_started:
  assumes "update_result sys = Inl e" "main_result sys = Inr pi"
  shows "main sys argc argv =
    (Some 0, \<lparr>events = [update_event sys, main_event sys, EvCloseHandle (hProcess pi), EvCloseHandle (hThread pi)],
       spawn_count = 2, last_error = e\<rparr>)"
  using assms by (simp add: run_defs api_defs)

lemma main_update_hangs:
  assumes "update_result sys = Inr pu" "process_exit sys (hProcess pu) = None"
  shows "main sys argc argv =
    (None, \<lparr>events = [update_event sys, EvWait (hProcess pu) INFINITE], spawn_count = 1, last_error = 0\<rparr>)"
  using assms by (simp add: run_defs api_defs)

lemma main_update_done_main_failed:
  assumes "update_result sys = Inr pu" "process_exit sys (hProcess pu) = Some c" "main_result sys = Inl e'"
  shows "main sys argc argv =
    (Some 1, \<lparr>events = [update_event sys, EvWait (hProcess pu) INFINITE, EvGetExitCode (hProcess pu) c,
        EvCloseHandle (hProcess pu), EvCloseHandle (hThread pu), main_event sys, error_dialog e'],
       spawn_count = 2, last_error = e'\<rparr>)"
  using assms by (simp add: run_defs api_defs)

lemma main_update_done_main_started:
  assumes "update_result sys = Inr pu" "process_exit sys (hProcess pu) = Some c" "main_result sys = Inr pi"
  shows "main sys argc argv =
    (Some 0, \<lparr>events = [update_event sys, EvWait (hProcess pu) INFINITE, EvGetExitCode (hProcess pu) c,
        EvCloseHandle (hProcess pu), EvCloseHandle (hThread pu), main_event sys,
        EvCloseHandle (hProcess pi), EvCloseHandle (hThread pi)],
       spawn_count = 2, last_error = 0\<rparr>)"
  using assms by (simp add: run_defs api_defs)

lemmas main_runs = main_update_failed_main_failed main_update_failed_main_started
  main_update_hangs main_update_done_main_failed main_update_done_main_started

text \<open>Every run is one of the five.\<close>

lemma main_run_cases:
  obtains (skip_fail) e e' where "update_result sys = Inl e" "main_result sys = Inl e'"
  | (skip_start) e pi where "update_result sys = Inl e" "main_result sys = Inr pi"
  | (hang) pu where "update_result sys = Inr pu" "process_exit sys (hProcess pu) = None"
  | (done_fail) pu c e' where "update_result sys = Inr pu" "process_exit sys (hProcess pu) = Some c"
      "main_result sys = Inl e'"
  | (done_start) pu c pi where "update_result sys = Inr pu" "process_exit sys (hProcess pu) = Some c"
      "main_result sys = Inr pi"
proof (cases "update_result sys")
  case (Inl e)
  then show ?thesis using skip_fail skip_start by (cases "main_result sys") auto
next
  case (Inr pu)
  show ?thesis
  proof (cases "process_exit sys (hProcess pu)")
    case None
    with Inr show ?thesis using hang by auto
  next
    case (Some c)
    with Inr show ?thesis using done_fail done_start by (cases "main_result sys") auto
  qed
qed

lemma trace_simps:
  "main sys argc argv = (x, w) \<Longrightarrow> trace sys argc argv = events w"
  "main sys argc argv = (x, w) \<Longrightarrow> exit_code sys argc argv = x"
  by (simp_all add: trace_def exit_code_def)

lemma hd_trace: "hd (trace sys argc argv) = update_event sys"
  by (cases sys rule: main_run_cases) (simp_all add: trace_simps [OF main_runs(1)]
      trace_simps [OF main_runs(2)] trace_simps [OF main_runs(3)] trace_simps [OF main_runs(4)]
      trace_simps [OF main_runs(5)])

lemma mem_trace_update_event: "update_event sys \<in> set (trace sys argc argv)"
  by (cases sys rule: main_run_cases) (simp_all add: trace_simps [OF main_runs(1)]
      trace_simps [OF main_runs(2)] trace_simps [OF main_runs(3)] trace_simps [OF main_runs(4)]
      trace_simps [OF main_runs(5)])

subsection \<open>Strings\<close>

lemma snprintf_fits: "length s < n \<Longrightarrow> snprintf n s = s"
  by (simp add: snprintf_def)

lemma snprintf_bounded: "0 < n \<Longrightarrow> length (snprintf n s) < n"
  by (auto simp: snprintf_def)

lemma snprintf_prefix: "prefix (snprintf n s) s"
  by (simp add: snprintf_def take_is_prefix)

lemma length_install_directory: "length (install_directory sys) < MAX_PATH"
  by (auto simp: install_directory_def GetModuleFileNameA_def MAX_PATH_def Let_def split: option.splits)

lemma length_batchPath_of: "length (batchPath_of d) < MAX_PATH"
  by (simp add: batchPath_of_def snprintf_bounded MAX_PATH_def)

lemma update_cmdLine_fits:
  "update_cmdLine d = ''cmd /c '' @ dquote # batchPath_of d @ [dquote]"
  using length_batchPath_of [of d] by (simp add: update_cmdLine_def snprintf_fits MAX_PATH_def)

lemma main_cmdLine_fits:
  "length d < MAX_PATH \<Longrightarrow> main_cmdLine d = dquote # d @ bslash # ''SIP Toast.exe'' @ [dquote]"
  by (simp add: main_cmdLine_def snprintf_fits MAX_PATH_def)

lemma update_cmdLine_neq_main_cmdLine: "update_cmdLine d \<noteq> main_cmdLine d'"
  by (simp add: update_cmdLine_def main_cmdLine_def snprintf_def MAX_PATH_def dquote_def)

lemma update_event_neq_main_event: "update_event sys \<noteq> main_event sys"
  by (simp add: update_event_def main_event_def update_cmdLine_neq_main_cmdLine)

lemma main_event_distinct:
  "EvWait h t \<noteq> main_event sys" "EvGetExitCode h c \<noteq> main_event sys"
  "EvCloseHandle h \<noteq> main_event sys" "error_dialog e \<noteq> main_event sys"
  "update_event sys \<noteq> main_event sys"
  by (simp_all add: update_event_neq_main_event) (simp_all add: main_event_def error_dialog_def)

lemma length_fmt_lu: "0 < k \<Longrightarrow> n < 10 ^ k \<Longrightarrow> length (fmt_lu n) \<le> k"
proof (induction k arbitrary: n)
  case 0
  then show ?case by simp
next
  case (Suc k)
  show ?case
  proof (cases "n < 10")
    case True
    then show ?thesis by (simp add: fmt_lu.simps)
  next
    case False
    then have "0 < k" using Suc.prems by (cases k) auto
    moreover have "n div 10 < 10 ^ k" using Suc.prems by (simp add: less_mult_imp_div_less mult.commute)
    ultimately have "length (fmt_lu (n div 10)) \<le> k" by (rule Suc.IH)
    with False show ?thesis by (simp add: fmt_lu.simps [of n])
  qed
qed

lemma length_fmt_lu_dword: "length (fmt_lu (unat (e :: DWORD))) \<le> 10"
proof -
  have "unat e < 2 ^ 32" using unsigned_less [of e] by simp
  then have "unat e < 10 ^ 10" by simp
  then show ?thesis by (intro length_fmt_lu) simp_all
qed

lemma errorMsg_of_fits:
  "errorMsg_of e = ''Failed to launch SIP Toast.exe (Error: '' @ fmt_lu (unat e) @ '')''"
  using length_fmt_lu_dword [of e] by (simp add: errorMsg_of_def snprintf_fits)

lemma of_char_digit: "d < 10 \<Longrightarrow> of_char (digit d) = (48 + d :: nat)"
proof -
  assume "d < 10"
  then have "d \<in> {0, 1, 2, 3, 4, 5, 6, 7, 8, 9}" by auto
  then show ?thesis by (auto simp: digit_def)
qed

lemma decimal_value_fmt_lu: "decimal_value (fmt_lu n) = n"
proof (induction n rule: fmt_lu.induct)
  case (1 n)
  show ?case
  proof (cases "n < 10")
    case True
    then show ?thesis by (simp add: decimal_value_def fmt_lu.simps [of n] of_char_digit)
  next
    case False
    with 1 have "decimal_value (fmt_lu (n div 10)) = n div 10" by simp
    with False show ?thesis
      by (simp add: decimal_value_def fmt_lu.simps [of n] of_char_digit)
  qed
qed

lemma fmt_lu_2: "fmt_lu 2 = ''2''"
  by (simp add: fmt_lu.simps digit_def)

lemma strrchr_None: "(strrchr s c = None) = (c \<notin> set s)"
  by (induction s) (auto split: option.splits)

lemma strrchr_last: "c \<notin> set b \<Longrightarrow> strrchr (a @ c # b) c = Some (length a)"
  by (induction a) (auto simp: strrchr_None [THEN iffD2] split: option.splits)

lemma c_str_id: "CHR 0x00 \<notin> set s \<Longrightarrow> c_str s = s"
  by (auto simp: c_str_def takeWhile_eq_all_conv)

subsection \<open>What a run contains\<close>

lemma mem_trace_main_event:
  "(main_event sys \<in> set (trace sys argc argv)) = (exit_code sys argc argv \<noteq> None)"
  by (cases sys rule: main_run_cases) (simp_all add: trace_simps [OF main_runs(1)]
      trace_simps [OF main_runs(2)] trace_simps [OF main_runs(3)] trace_simps [OF main_runs(4)]
      trace_simps [OF main_runs(5)] main_event_distinct [symmetric])

lemma spawns_of_trace:
  "EvCreateProcess cmd fl dir r \<in> set (trace sys argc argv) \<Longrightarrow>
     EvCreateProcess cmd fl dir r = update_event sys \<or> EvCreateProcess cmd fl dir r = main_event sys"
  by (cases sys rule: main_run_cases) (auto simp add: trace_simps [OF main_runs(1)]
      trace_simps [OF main_runs(2)] trace_simps [OF main_runs(3)] trace_simps [OF main_runs(4)]
      trace_simps [OF main_runs(5)] error_dialog_def)

lemma dialogs_of_trace:
  "EvMessageBox txt cap ty \<in> set (trace sys argc argv) \<Longrightarrow>
     \<exists>e. EvMessageBox txt cap ty = error_dialog e"
  by (cases sys rule: main_run_cases) (auto simp add: trace_simps [OF main_runs(1)]
      trace_simps [OF main_runs(2)] trace_simps [OF main_runs(3)] trace_simps [OF main_runs(4)]
      trace_simps [OF main_runs(5)] update_event_def main_event_def)

lemma process_exit_irrelevant:
  "install_directory (sys\<lparr>process_exit := pe\<rparr>) = install_directory sys"
  "update_result (sys\<lparr>process_exit := pe\<rparr>) = update_result sys"
  "main_result (sys\<lparr>process_exit := pe\<rparr>) = main_result sys"
  "update_event (sys\<lparr>process_exit := pe\<rparr>) = update_event sys"
  "main_event (sys\<lparr>process_exit := pe\<rparr>) = main_event sys"
  by (simp_all add: install_directory_def GetModuleFileNameA_def update_result_def
      main_result_def update_event_def main_event_def)

lemma open_handles_update_event:
  "open_handles (update_event sys # tr) hs =
     (case update_result sys of
        Inl e \<Rightarrow> open_handles tr hs
      | Inr pu \<Rightarrow> open_handles tr (hs @ [hProcess pu, hThread pu]))"
  by (simp add: update_event_def split: sum.splits)

lemma open_handles_main_event:
  "open_handles (main_event sys # tr) hs =
     (case main_result sys of
        Inl e \<Rightarrow> open_handles tr hs
      | Inr pi \<Rightarrow> open_handles tr (hs @ [hProcess pi, hThread pi]))"
  by (simp add: main_event_def split: sum.splits)

lemma open_handles_error_dialog: "open_handles (error_dialog e # tr) hs = open_handles tr hs"
  by (simp add: error_dialog_def)

lemmas open_handles_events = open_handles_update_event open_handles_main_event
  open_handles_error_dialog

subsection \<open>The example systems evaluated\<close>

lemma install_directory_tool_os: "install_directory (tool_os upd fate app) = tool_dir"
  by (simp add: install_directory_def GetModuleFileNameA_def tool_os_def tool_dir_def c_str_def
      bslash_def MAX_PATH_def)

lemma module_path_tool_os:
  "GetModuleFileNameA (tool_os upd fate app) MAX_PATH = tool_dir @ bslash # ''update.exe''"
  by (simp add: GetModuleFileNameA_def tool_os_def tool_dir_def c_str_def bslash_def MAX_PATH_def)

lemma tool_os_answers:
  "update_result (tool_os upd fate app) = upd"
  "main_result (tool_os upd fate app) = app"
  "process_exit (tool_os upd fate app) h = fate"
  by (simp_all add: update_result_def main_result_def tool_os_def)

lemma install_directory_bare_os: "install_directory bare_os = ''update.exe''"
  by (simp add: install_directory_def GetModuleFileNameA_def bare_os_def c_str_def
      bslash_def MAX_PATH_def)

lemma module_path_bare_os: "GetModuleFileNameA bare_os MAX_PATH = ''update.exe''"
  by (simp add: GetModuleFileNameA_def bare_os_def c_str_def MAX_PATH_def)

lemma bare_os_answers:
  "update_result bare_os = Inl 2"
  "main_result bare_os = Inr \<lparr>hProcess = 12, hThread = 16\<rparr>"
  by (simp_all add: update_result_def main_result_def bare_os_def)

lemma length_long_dir: "length long_dir = 253"
  by (simp add: long_dir_def)

lemma install_directory_long_path_os: "install_directory long_path_os = long_dir"
proof -
  have nul: "CHR 0x00 \<notin> set (long_dir @ bslash # ''u.exe'')"
    by (simp add: long_dir_def bslash_def)
  have "GetModuleFileNameA long_path_os MAX_PATH = long_dir @ bslash # ''u.exe''"
    by (simp add: GetModuleFileNameA_def long_path_os_def c_str_id [OF nul] MAX_PATH_def
        length_long_dir)
  moreover have "strrchr (long_dir @ bslash # ''u.exe'') bslash = Some (length long_dir)"
    by (rule strrchr_last) (simp add: bslash_def)
  ultimately show ?thesis
    by (simp add: install_directory_def)
qed

lemma batchPath_of_long_dir: "batchPath_of long_dir = long_dir @ bslash # ''updat''"
  by (simp add: batchPath_of_def snprintf_def MAX_PATH_def length_long_dir)

lemma update_cmdLine_long_dir:
  "update_cmdLine long_dir = ''cmd /c '' @ dquote # long_dir @ bslash # ''updat'' @ [dquote]"
  by (simp add: update_cmdLine_fits batchPath_of_long_dir)

lemma long_path_os_answers:
  "update_result long_path_os = Inl 2"
  "main_result long_path_os = Inl 2"
  by (simp_all add: update_result_def main_result_def long_path_os_def)

section \<open>The claims\<close>

text \<open>
  C1 (ordering). Whenever the update-step process is created, the launcher's next call is
  \<^verbatim>\<open>WaitForSingleObject\<close> on that process with timeout \<^verbatim>\<open>INFINITE\<close>. If the process
  never terminates the run ends there: the launcher never returns and never asks for the
  main application. If it terminates with code \<open>c\<close>, the launcher reads \<open>c\<close>, closes both
  handles and only then asks for the main application. The update call is not the
  main-application call.
\<close>

theorem update_step_awaited_before_main_app:
  assumes "update_result sys = Inr pu"
  shows "\<exists>rest. trace sys argc argv = update_event sys # EvWait (hProcess pu) INFINITE # rest
           \<and> update_event sys \<noteq> main_event sys
           \<and> (process_exit sys (hProcess pu) = None \<longrightarrow>
                rest = [] \<and> exit_code sys argc argv = None)
           \<and> (\<forall>c. process_exit sys (hProcess pu) = Some c \<longrightarrow>
                (\<exists>post. rest = EvGetExitCode (hProcess pu) c # EvCloseHandle (hProcess pu)
                           # EvCloseHandle (hThread pu) # main_event sys # post)
                \<and> exit_code sys argc argv \<noteq> None)"
proof (cases sys rule: main_run_cases)
  case (hang pu')
  with assms show ?thesis
    by (simp add: trace_simps [OF main_update_hangs] update_event_neq_main_event)
next
  case (done_fail pu' c e')
  with assms show ?thesis
    by (simp add: trace_simps [OF main_update_done_main_failed] update_event_neq_main_event)
next
  case (done_start pu' c pi)
  with assms show ?thesis
    by (simp add: trace_simps [OF main_update_done_main_started] update_event_neq_main_event)
qed (use assms in simp_all)

text \<open>Instances: an update step that ends with code 7, and one that never ends.\<close>

theorem update_step_awaited_before_main_app_witness:
  "update_result (tool_os (Inr pi_update) (Some 7) (Inr pi_app)) = Inr pi_update
   \<and> process_exit (tool_os (Inr pi_update) (Some 7) (Inr pi_app)) (hProcess pi_update) = Some 7
   \<and> (\<exists>post. trace (tool_os (Inr pi_update) (Some 7) (Inr pi_app)) 1 [] =
         update_event (tool_os (Inr pi_update) (Some 7) (Inr pi_app))
         # EvWait (hProcess pi_update) INFINITE # EvGetExitCode (hProcess pi_update) 7
         # EvCloseHandle (hProcess pi_update) # EvCloseHandle (hThread pi_update)
         # main_event (tool_os (Inr pi_update) (Some 7) (Inr pi_app)) # post)
   \<and> exit_code (tool_os (Inr pi_update) (Some 7) (Inr pi_app)) 1 [] \<noteq> None
   \<and> update_result (tool_os (Inr pi_update) None (Inr pi_app)) = Inr pi_update
   \<and> process_exit (tool_os (Inr pi_update) None (Inr pi_app)) (hProcess pi_update) = None
   \<and> trace (tool_os (Inr pi_update) None (Inr pi_app)) 1 [] =
       [update_event (tool_os (Inr pi_update) None (Inr pi_app)), EvWait (hProcess pi_update) INFINITE]
   \<and> exit_code (tool_os (Inr pi_update) None (Inr pi_app)) 1 [] = None"
proof -
  have ends: "update_result (tool_os (Inr pi_update) (Some 7) (Inr pi_app)) = Inr pi_update"
    and hang: "update_result (tool_os (Inr pi_update) None (Inr pi_app)) = Inr pi_update"
    by (simp_all add: tool_os_answers)
  show ?thesis
    using update_step_awaited_before_main_app [OF ends, of 1 "[]"]
      update_step_awaited_before_main_app [OF hang, of 1 "[]"]
    by (auto simp add: tool_os_answers)
qed

text \<open>
  C2 (exit codes). The launcher returns 0 exactly when its request for the main
  application succeeded, 1 exactly when that request failed, and does not return exactly
  when it never made the request; all of this for every answer to the update step. After
  a successful start the only further events are the two \<^verbatim>\<open>CloseHandle\<close> calls: there is
  no wait on the main application.
\<close>

theorem exit_code_contract:
  "(exit_code sys argc argv = Some 0) =
     (\<exists>pi. main_result sys = Inr pi \<and> main_event sys \<in> set (trace sys argc argv))
   \<and> (exit_code sys argc argv = Some 1) =
     (\<exists>e. main_result sys = Inl e \<and> main_event sys \<in> set (trace sys argc argv))
   \<and> (exit_code sys argc argv = None) = (main_event sys \<notin> set (trace sys argc argv))
   \<and> (\<forall>pi. main_result sys = Inr pi \<and> main_event sys \<in> set (trace sys argc argv) \<longrightarrow>
        suffix [main_event sys, EvCloseHandle (hProcess pi), EvCloseHandle (hThread pi)]
          (trace sys argc argv))"
proof (cases sys rule: main_run_cases)
  case (skip_fail e e')
  then show ?thesis
    using update_event_neq_main_event [of sys]
    by (simp add: trace_simps [OF main_update_failed_main_failed])
next
  case (skip_start e pi)
  then show ?thesis
    using update_event_neq_main_event [of sys]
    by (simp add: trace_simps [OF main_update_failed_main_started] suffix_def)
next
  case (hang pu)
  then show ?thesis
    using update_event_neq_main_event [of sys]
    by (auto simp add: trace_simps [OF main_update_hangs] main_event_def)
next
  case (done_fail pu c e')
  then show ?thesis
    using update_event_neq_main_event [of sys]
    by (simp add: trace_simps [OF main_update_done_main_failed])
next
  case (done_start pu c pi)
  then show ?thesis
    using update_event_neq_main_event [of sys]
    by (simp add: trace_simps [OF main_update_done_main_started] suffix_def)
qed

text \<open>
  Instances: a main application that starts and never terminates (exit code 0, update
  step missing), and one that cannot be started after a finished update step (exit code 1).
\<close>

theorem exit_code_contract_witness:
  "main_result (tool_os (Inl 2) None (Inr pi_app)) = Inr pi_app
   \<and> exit_code (tool_os (Inl 2) None (Inr pi_app)) 1 [] = Some 0
   \<and> process_exit (tool_os (Inl 2) None (Inr pi_app)) (hProcess pi_app) = None
   \<and> suffix [main_event (tool_os (Inl 2) None (Inr pi_app)),
              EvCloseHandle (hProcess pi_app), EvCloseHandle (hThread pi_app)]
        (trace (tool_os (Inl 2) None (Inr pi_app)) 1 [])
   \<and> main_result (tool_os (Inr pi_update) (Some 7) (Inl 2)) = Inl 2
   \<and> exit_code (tool_os (Inr pi_update) (Some 7) (Inl 2)) 1 [] = Some 1"
proof -
  have started: "main_event (tool_os (Inl 2) None (Inr pi_app))
      \<in> set (trace (tool_os (Inl 2) None (Inr pi_app)) 1 [])"
    by (simp add: trace_simps [OF main_update_failed_main_started] tool_os_answers)
  have failed: "main_event (tool_os (Inr pi_update) (Some 7) (Inl 2))
      \<in> set (trace (tool_os (Inr pi_update) (Some 7) (Inl 2)) 1 [])"
    by (simp add: trace_simps [OF main_update_done_main_failed] tool_os_answers)
  show ?thesis
    using started failed
      exit_code_contract [of "tool_os (Inl 2) None (Inr pi_app)" 1 "[]"]
      exit_code_contract [of "tool_os (Inr pi_update) (Some 7) (Inl 2)" 1 "[]"]
    by (simp add: tool_os_answers)
qed

text \<open>
  C3 (failure surfacing). If the request for the main application fails with last-error
  code \<open>e\<close>, the launcher returns 1 and the run has exactly one dialog, its last event:
  caption \<^verbatim>\<open>Update Launcher Error\<close>, type \<^verbatim>\<open>MB_OK | MB_ICONERROR\<close>, and the text
  \<^verbatim>\<open>Failed to launch SIP Toast.exe (Error: e)\<close> with \<open>e\<close> in decimal, never cut by the
  256-byte buffer. Dialogs are the only events that show anything to the user.
\<close>

theorem main_launch_failure_dialog:
  assumes "main_result sys = Inl e"
    and "main_event sys \<in> set (trace sys argc argv)"
  shows "exit_code sys argc argv = Some 1
    \<and> filter is_dialog (trace sys argc argv) =
        [EvMessageBox (''Failed to launch SIP Toast.exe (Error: '' @ fmt_lu (unat e) @ '')'')
           ''Update Launcher Error'' (MB_OK OR MB_ICONERROR)]
    \<and> suffix [main_event sys, error_dialog e] (trace sys argc argv)
    \<and> length (filter is_dialog (trace sys argc argv)) = 1
    \<and> decimal_value (fmt_lu (unat e)) = unat e"
proof (cases sys rule: main_run_cases)
  case (skip_fail e0 e')
  with assms show ?thesis
    by (simp add: trace_simps [OF main_update_failed_main_failed] suffix_def
        update_event_def main_event_def error_dialog_def errorMsg_of_fits decimal_value_fmt_lu)
next
  case (hang pu)
  with assms show ?thesis
    using update_event_neq_main_event [of sys]
    by (auto simp add: trace_simps [OF main_update_hangs] main_event_def)
next
  case (done_fail pu c e')
  with assms show ?thesis
    by (simp add: trace_simps [OF main_update_done_main_failed] suffix_def
        update_event_def main_event_def error_dialog_def errorMsg_of_fits decimal_value_fmt_lu)
qed (use assms in simp_all)

text \<open>Instance: neither process can be started, error 2.\<close>

theorem main_launch_failure_dialog_witness:
  "main_result (tool_os (Inl 2) None (Inl 2)) = Inl 2
   \<and> main_event (tool_os (Inl 2) None (Inl 2)) \<in> set (trace (tool_os (Inl 2) None (Inl 2)) 1 [])
   \<and> exit_code (tool_os (Inl 2) None (Inl 2)) 1 [] = Some 1
   \<and> filter is_dialog (trace (tool_os (Inl 2) None (Inl 2)) 1 []) =
       [EvMessageBox ''Failed to launch SIP Toast.exe (Error: 2)'' ''Update Launcher Error'' 0x10]"
proof -
  have failed: "main_result (tool_os (Inl 2) None (Inl 2)) = Inl 2"
    by (simp add: tool_os_answers)
  have tried: "main_event (tool_os (Inl 2) None (Inl 2))
      \<in> set (trace (tool_os (Inl 2) None (Inl 2)) 1 [])"
    by (simp add: trace_simps [OF main_update_failed_main_failed] tool_os_answers)
  show ?thesis
    using failed tried main_launch_failure_dialog [OF failed tried]
    by (simp add: fmt_lu_2 MB_OK_def MB_ICONERROR_def)
qed

text \<open>
  C4 (optional update step). If the update-step process cannot be created, the
  launcher's very next event is the request for the main application, it returns, and
  the dialogs of the run are those of the main-application request alone: none when the
  main application starts, in which case the exit code is 0.
\<close>

theorem missing_update_step_is_skipped:
  assumes "update_result sys = Inl e"
  shows "(\<exists>rest. trace sys argc argv = update_event sys # main_event sys # rest)
    \<and> exit_code sys argc argv \<noteq> None
    \<and> filter is_dialog (trace sys argc argv) =
        (case main_result sys of Inl e' \<Rightarrow> [error_dialog e'] | Inr pi \<Rightarrow> [])
    \<and> (\<forall>pi. main_result sys = Inr pi \<longrightarrow>
          exit_code sys argc argv = Some 0
          \<and> trace sys argc argv =
              [update_event sys, main_event sys, EvCloseHandle (hProcess pi), EvCloseHandle (hThread pi)])"
proof (cases sys rule: main_run_cases)
  case (skip_fail e0 e')
  then show ?thesis
    by (simp add: trace_simps [OF main_update_failed_main_failed]
        update_event_def main_event_def error_dialog_def)
next
  case (skip_start e0 pi)
  then show ?thesis
    by (simp add: trace_simps [OF main_update_failed_main_started]
        update_event_def main_event_def)
qed (use assms in simp_all)

text \<open>Instance: no update step, the main application starts.\<close>

theorem missing_update_step_is_skipped_witness:
  "update_result (tool_os (Inl 2) None (Inr pi_app)) = Inl 2
   \<and> main_result (tool_os (Inl 2) None (Inr pi_app)) = Inr pi_app
   \<and> exit_code (tool_os (Inl 2) None (Inr pi_app)) 1 [] = Some 0
   \<and> trace (tool_os (Inl 2) None (Inr pi_app)) 1 [] =
       [update_event (tool_os (Inl 2) None (Inr pi_app)),
        main_event (tool_os (Inl 2) None (Inr pi_app)),
        EvCloseHandle (hProcess pi_app), EvCloseHandle (hThread pi_app)]
   \<and> filter is_dialog (trace (tool_os (Inl 2) None (Inr pi_app)) 1 []) = []"
proof -
  have skipped: "update_result (tool_os (Inl 2) None (Inr pi_app)) = Inl 2"
    by (simp add: tool_os_answers)
  show ?thesis
    using missing_update_step_is_skipped [OF skipped, of 1 "[]"]
    by (auto simp add: tool_os_answers update_event_def main_event_def)
qed

text \<open>
  C5 (process invocation), as stated, fails for long install directories: with the
  253-character directory \<open>long_dir\<close> the script path is cut to 259 characters and the
  update step is invoked with \<^verbatim>\<open>cmd /c "C:\aaa...a\updat"\<close>.
\<close>

theorem update_command_line_counterexample:
  "install_directory long_path_os = long_dir
   \<and> hd (trace long_path_os 0 []) =
       EvCreateProcess (''cmd /c '' @ dquote # long_dir @ bslash # ''updat'' @ [dquote])
         CREATE_NO_WINDOW long_dir (Inl 2)
   \<and> hd (trace long_path_os 0 []) \<noteq>
       EvCreateProcess (''cmd /c '' @ dquote # long_dir @ bslash # ''update.bat'' @ [dquote])
         CREATE_NO_WINDOW long_dir (Inl 2)"
proof -
  have res: "update_result long_path_os = Inl 2"
    by (simp add: update_result_def long_path_os_def)
  have "hd (trace long_path_os 0 []) =
      EvCreateProcess (update_cmdLine long_dir) CREATE_NO_WINDOW long_dir (Inl 2)"
    by (simp add: hd_trace update_event_def install_directory_long_path_os res)
  then show ?thesis
    by (simp add: install_directory_long_path_os update_cmdLine_long_dir)
qed

text \<open>
  C5 (process invocation), amended. For the install directory \<open>d\<close> of any system, the
  first event is the update request with command line \<^verbatim>\<open>cmd /c "p"\<close>, no visible
  window (flag \<^verbatim>\<open>CREATE_NO_WINDOW\<close>) and current directory \<open>d\<close>, where \<open>p\<close> is
  \<^verbatim>\<open>d\update.bat\<close> cut to \<open>MAX_PATH - 1\<close> characters, hence \<^verbatim>\<open>d\update.bat\<close> itself when
  \<open>d\<close> has at most 248 characters. Every later process request is for
  \<^verbatim>\<open>"d\SIP Toast.exe"\<close> with normal priority class and a new visible console (flags
  \<^verbatim>\<open>NORMAL_PRIORITY_CLASS | CREATE_NEW_CONSOLE\<close>, with the zeroed \<^verbatim>\<open>STARTUPINFOA\<close> that
  hides nothing) and current directory \<open>d\<close>, and there is one when the launcher returns. For \<^verbatim>\<open>C:\Apps\Tool\<close> the two paths are as the
  specification lists them.
\<close>

theorem process_invocations:
  assumes d: "d = install_directory sys"
  shows "(\<exists>rest. trace sys argc argv =
            EvCreateProcess (''cmd /c '' @ dquote # batchPath_of d @ [dquote]) CREATE_NO_WINDOW d
              (update_result sys) # rest
          \<and> (\<forall>cmd fl dir r. EvCreateProcess cmd fl dir r \<in> set rest \<longrightarrow>
                cmd = dquote # d @ bslash # ''SIP Toast.exe'' @ [dquote]
                \<and> fl = (NORMAL_PRIORITY_CLASS OR CREATE_NEW_CONSOLE) \<and> dir = d)
          \<and> (exit_code sys argc argv \<noteq> None \<longrightarrow>
                EvCreateProcess (dquote # d @ bslash # ''SIP Toast.exe'' @ [dquote])
                  (NORMAL_PRIORITY_CLASS OR CREATE_NEW_CONSOLE) d (main_result sys) \<in> set rest))
    \<and> (length d + 11 < MAX_PATH \<longrightarrow> batchPath_of d = d @ bslash # ''update.bat'')
    \<and> batchPath_of d = take (MAX_PATH - 1) (d @ bslash # ''update.bat'')
    \<and> (d = ''C:'' @ bslash # ''Apps'' @ bslash # ''Tool'' \<longrightarrow>
          batchPath_of d = ''C:'' @ bslash # ''Apps'' @ bslash # ''Tool'' @ bslash # ''update.bat''
          \<and> main_cmdLine d =
              dquote # ''C:'' @ bslash # ''Apps'' @ bslash # ''Tool'' @ bslash # ''SIP Toast.exe'' @ [dquote])"
proof -
  have len: "length d < MAX_PATH"
    by (simp add: d length_install_directory)
  have upd: "update_event sys =
      EvCreateProcess (''cmd /c '' @ dquote # batchPath_of d @ [dquote]) CREATE_NO_WINDOW d
        (update_result sys)"
    by (simp add: update_event_def update_cmdLine_fits d)
  have app: "main_event sys =
      EvCreateProcess (dquote # d @ bslash # ''SIP Toast.exe'' @ [dquote])
        (NORMAL_PRIORITY_CLASS OR CREATE_NEW_CONSOLE) d (main_result sys)"
    using len by (simp add: main_event_def main_cmdLine_fits d)
  have dlg: "\<And>cmd fl dir r e. EvCreateProcess cmd fl dir r \<noteq> error_dialog e"
    by (simp add: error_dialog_def)
  have first: "\<exists>rest. trace sys argc argv = update_event sys # rest
          \<and> (\<forall>cmd fl dir r. EvCreateProcess cmd fl dir r \<in> set rest \<longrightarrow>
                EvCreateProcess cmd fl dir r = main_event sys)
          \<and> (exit_code sys argc argv \<noteq> None \<longrightarrow> main_event sys \<in> set rest)"
  proof (cases sys rule: main_run_cases)
    case skip_fail
    then show ?thesis by (simp add: trace_simps [OF main_update_failed_main_failed] dlg)
  next
    case skip_start
    then show ?thesis by (simp add: trace_simps [OF main_update_failed_main_started])
  next
    case hang
    then show ?thesis by (simp add: trace_simps [OF main_update_hangs])
  next
    case done_fail
    then show ?thesis by (simp add: trace_simps [OF main_update_done_main_failed] dlg)
  next
    case done_start
    then show ?thesis by (simp add: trace_simps [OF main_update_done_main_started])
  qed
  have fits: "length d + 11 < MAX_PATH \<longrightarrow> batchPath_of d = d @ bslash # ''update.bat''"
    by (simp add: batchPath_of_def snprintf_fits)
  have cut: "batchPath_of d = take (MAX_PATH - 1) (d @ bslash # ''update.bat'')"
    by (simp add: batchPath_of_def snprintf_def)
  have tool: "d = ''C:'' @ bslash # ''Apps'' @ bslash # ''Tool'' \<longrightarrow>
          batchPath_of d = ''C:'' @ bslash # ''Apps'' @ bslash # ''Tool'' @ bslash # ''update.bat''
          \<and> main_cmdLine d =
              dquote # ''C:'' @ bslash # ''Apps'' @ bslash # ''Tool'' @ bslash # ''SIP Toast.exe'' @ [dquote]"
    by (simp add: batchPath_of_def main_cmdLine_def snprintf_def MAX_PATH_def)
  from first obtain rest where rest: "trace sys argc argv = update_event sys # rest"
    "\<forall>cmd fl dir r. EvCreateProcess cmd fl dir r \<in> set rest \<longrightarrow>
                EvCreateProcess cmd fl dir r = main_event sys"
    "exit_code sys argc argv \<noteq> None \<longrightarrow> main_event sys \<in> set rest"
    by blast
  have "trace sys argc argv =
            EvCreateProcess (''cmd /c '' @ dquote # batchPath_of d @ [dquote]) CREATE_NO_WINDOW d
              (update_result sys) # rest
          \<and> (\<forall>cmd fl dir r. EvCreateProcess cmd fl dir r \<in> set rest \<longrightarrow>
                cmd = dquote # d @ bslash # ''SIP Toast.exe'' @ [dquote]
                \<and> fl = (NORMAL_PRIORITY_CLASS OR CREATE_NEW_CONSOLE) \<and> dir = d)
          \<and> (exit_code sys argc argv \<noteq> None \<longrightarrow>
                EvCreateProcess (dquote # d @ bslash # ''SIP Toast.exe'' @ [dquote])
                  (NORMAL_PRIORITY_CLASS OR CREATE_NEW_CONSOLE) d (main_result sys) \<in> set rest)"
    using rest unfolding upd app by auto
  with fits cut tool show ?thesis by blast
qed

text \<open>Instance: the launcher in \<^verbatim>\<open>C:\Apps\Tool\<close>, both processes start.\<close>

theorem process_invocations_witness:
  "tool_dir = install_directory (tool_os (Inr pi_update) (Some 0) (Inr pi_app))
   \<and> tool_dir = ''C:'' @ bslash # ''Apps'' @ bslash # ''Tool''
   \<and> exit_code (tool_os (Inr pi_update) (Some 0) (Inr pi_app)) 1 [] \<noteq> None
   \<and> length tool_dir + 11 < MAX_PATH
   \<and> batchPath_of tool_dir = ''C:'' @ bslash # ''Apps'' @ bslash # ''Tool'' @ bslash # ''update.bat''
   \<and> main_cmdLine tool_dir =
       dquote # ''C:'' @ bslash # ''Apps'' @ bslash # ''Tool'' @ bslash # ''SIP Toast.exe'' @ [dquote]
   \<and> (\<exists>rest. trace (tool_os (Inr pi_update) (Some 0) (Inr pi_app)) 1 [] =
         EvCreateProcess (''cmd /c '' @ dquote # tool_dir @ bslash # ''update.bat'' @ [dquote])
           CREATE_NO_WINDOW tool_dir (Inr pi_update) # rest
       \<and> EvCreateProcess (dquote # tool_dir @ bslash # ''SIP Toast.exe'' @ [dquote])
           (NORMAL_PRIORITY_CLASS OR CREATE_NEW_CONSOLE) tool_dir (Inr pi_app) \<in> set rest)"
proof -
  let ?sys = "tool_os (Inr pi_update) (Some 0) (Inr pi_app)"
  have dir: "tool_dir = install_directory ?sys"
    by (simp add: install_directory_tool_os)
  have returns: "exit_code ?sys 1 [] \<noteq> None"
    by (simp add: trace_simps [OF main_update_done_main_started] tool_os_answers)
  have short: "length tool_dir + 11 < MAX_PATH"
    by (simp add: tool_dir_def MAX_PATH_def)
  have tool: "tool_dir = ''C:'' @ bslash # ''Apps'' @ bslash # ''Tool''"
    by (simp add: tool_dir_def)
  from process_invocations [OF dir, of 1 "[]"] obtain rest where
    tr: "trace ?sys 1 [] =
           EvCreateProcess (''cmd /c '' @ dquote # batchPath_of tool_dir @ [dquote]) CREATE_NO_WINDOW
             tool_dir (update_result ?sys) # rest"
    and app: "exit_code ?sys 1 [] \<noteq> None \<longrightarrow>
           EvCreateProcess (dquote # tool_dir @ bslash # ''SIP Toast.exe'' @ [dquote])
             (NORMAL_PRIORITY_CLASS OR CREATE_NEW_CONSOLE) tool_dir (main_result ?sys) \<in> set rest"
    and fits: "length tool_dir + 11 < MAX_PATH \<longrightarrow> batchPath_of tool_dir = tool_dir @ bslash # ''update.bat''"
    and example: "tool_dir = ''C:'' @ bslash # ''Apps'' @ bslash # ''Tool'' \<longrightarrow>
          batchPath_of tool_dir = ''C:'' @ bslash # ''Apps'' @ bslash # ''Tool'' @ bslash # ''update.bat''
          \<and> main_cmdLine tool_dir =
              dquote # ''C:'' @ bslash # ''Apps'' @ bslash # ''Tool'' @ bslash # ''SIP Toast.exe'' @ [dquote]"
    by blast
  from fits short have bp: "batchPath_of tool_dir = tool_dir @ bslash # ''update.bat''"
    by blast
  have "trace ?sys 1 [] =
         EvCreateProcess (''cmd /c '' @ dquote # tool_dir @ bslash # ''update.bat'' @ [dquote])
           CREATE_NO_WINDOW tool_dir (Inr pi_update) # rest"
    using tr by (simp add: bp tool_os_answers)
  moreover have "EvCreateProcess (dquote # tool_dir @ bslash # ''SIP Toast.exe'' @ [dquote])
           (NORMAL_PRIORITY_CLASS OR CREATE_NEW_CONSOLE) tool_dir (Inr pi_app) \<in> set rest"
    using app returns by (simp add: tool_os_answers)
  ultimately show ?thesis
    using dir tool returns short example by blast
qed

text \<open>
  C6 (the update step's exit code does not matter). Two systems that differ only in the
  exit codes of processes, not in whether they terminate, give the same launcher exit
  code, the same events up to the code recorded by \<^verbatim>\<open>GetExitCodeProcess\<close>, the same
  dialogs and the same main-application request.
\<close>

theorem update_exit_code_noninterference:
  assumes same_fate: "\<forall>h. (pe h = None) = (process_exit sys h = None)"
  shows "exit_code (sys\<lparr>process_exit := pe\<rparr>) argc argv = exit_code sys argc argv
    \<and> map erase_exit_code (trace (sys\<lparr>process_exit := pe\<rparr>) argc argv) =
        map erase_exit_code (trace sys argc argv)
    \<and> filter is_dialog (trace (sys\<lparr>process_exit := pe\<rparr>) argc argv) =
        filter is_dialog (trace sys argc argv)
    \<and> main_event (sys\<lparr>process_exit := pe\<rparr>) = main_event sys"
proof -
  let ?sys' = "sys\<lparr>process_exit := pe\<rparr>"
  show ?thesis
  proof (cases sys rule: main_run_cases)
    case (skip_fail e e')
    then have "update_result ?sys' = Inl e" "main_result ?sys' = Inl e'"
      by (simp_all add: process_exit_irrelevant)
    then show ?thesis
      using skip_fail
      by (simp add: trace_simps [OF main_update_failed_main_failed] process_exit_irrelevant)
  next
    case (skip_start e pi)
    then have "update_result ?sys' = Inl e" "main_result ?sys' = Inr pi"
      by (simp_all add: process_exit_irrelevant)
    then show ?thesis
      using skip_start
      by (simp add: trace_simps [OF main_update_failed_main_started] process_exit_irrelevant)
  next
    case (hang pu)
    then have "update_result ?sys' = Inr pu" "process_exit ?sys' (hProcess pu) = None"
      using same_fate by (simp_all add: process_exit_irrelevant)
    then show ?thesis
      using hang
      by (simp add: trace_simps [OF main_update_hangs] process_exit_irrelevant)
  next
    case (done_fail pu c e')
    from done_fail(2) same_fate obtain c' where "pe (hProcess pu) = Some c'"
      by (cases "pe (hProcess pu)") auto
    with done_fail have "update_result ?sys' = Inr pu" "process_exit ?sys' (hProcess pu) = Some c'"
      "main_result ?sys' = Inl e'"
      by (simp_all add: process_exit_irrelevant)
    then show ?thesis
      using done_fail
      by (simp add: trace_simps [OF main_update_done_main_failed] process_exit_irrelevant
          error_dialog_def)
  next
    case (done_start pu c pi)
    from done_start(2) same_fate obtain c' where "pe (hProcess pu) = Some c'"
      by (cases "pe (hProcess pu)") auto
    with done_start have "update_result ?sys' = Inr pu" "process_exit ?sys' (hProcess pu) = Some c'"
      "main_result ?sys' = Inr pi"
      by (simp_all add: process_exit_irrelevant)
    then show ?thesis
      using done_start
      by (simp add: trace_simps [OF main_update_done_main_started] process_exit_irrelevant)
  qed
qed

text \<open>Instance: the update step returns 0 in one run and 1 in the other.\<close>

theorem update_exit_code_noninterference_witness:
  "(\<forall>h. ((\<lambda>h. Some 1) h = None) =
         (process_exit (tool_os (Inr pi_update) (Some 0) (Inl 2)) h = None))
   \<and> EvGetExitCode (hProcess pi_update) 0
       \<in> set (trace (tool_os (Inr pi_update) (Some 0) (Inl 2)) 1 [])
   \<and> EvGetExitCode (hProcess pi_update) 1
       \<in> set (trace ((tool_os (Inr pi_update) (Some 0) (Inl 2))\<lparr>process_exit := \<lambda>h. Some 1\<rparr>) 1 [])
   \<and> exit_code ((tool_os (Inr pi_update) (Some 0) (Inl 2))\<lparr>process_exit := \<lambda>h. Some 1\<rparr>) 1 [] =
       exit_code (tool_os (Inr pi_update) (Some 0) (Inl 2)) 1 []
   \<and> map erase_exit_code
         (trace ((tool_os (Inr pi_update) (Some 0) (Inl 2))\<lparr>process_exit := \<lambda>h. Some 1\<rparr>) 1 []) =
       map erase_exit_code (trace (tool_os (Inr pi_update) (Some 0) (Inl 2)) 1 [])
   \<and> filter is_dialog
         (trace ((tool_os (Inr pi_update) (Some 0) (Inl 2))\<lparr>process_exit := \<lambda>h. Some 1\<rparr>) 1 []) =
       filter is_dialog (trace (tool_os (Inr pi_update) (Some 0) (Inl 2)) 1 [])"
proof -
  have fate: "\<forall>h. ((\<lambda>h. Some (1 :: DWORD)) h = None) =
         (process_exit (tool_os (Inr pi_update) (Some 0) (Inl 2)) h = None)"
    by (simp add: tool_os_answers)
  have zero: "EvGetExitCode (hProcess pi_update) 0
       \<in> set (trace (tool_os (Inr pi_update) (Some 0) (Inl 2)) 1 [])"
    by (simp add: trace_simps [OF main_update_done_main_failed] tool_os_answers)
  have one: "EvGetExitCode (hProcess pi_update) 1
       \<in> set (trace ((tool_os (Inr pi_update) (Some 0) (Inl 2))\<lparr>process_exit := \<lambda>h. Some 1\<rparr>) 1 [])"
    by (simp add: trace_simps [OF main_update_done_main_failed] tool_os_answers
        process_exit_irrelevant)
  from update_exit_code_noninterference [OF fate, of 1 "[]"] fate zero one
  show ?thesis by blast
qed

text \<open>
  C7 (handles are released). When the launcher returns, no handle is open, and none is
  open at the moment it asks for the main application. The update step's handles are
  closed right after its exit code is read and before the main-application request; the
  main application's handles are closed right after its start, as the last two events;
  a failed start is followed by the dialog only and opens no handle.
\<close>

theorem handles_released:
  "(exit_code sys argc argv \<noteq> None \<longrightarrow>
      open_handles (trace sys argc argv) [] = []
      \<and> open_handles (takeWhile (\<lambda>e. e \<noteq> main_event sys) (trace sys argc argv)) [] = [])
   \<and> (\<forall>pu c. update_result sys = Inr pu \<and> process_exit sys (hProcess pu) = Some c \<longrightarrow>
         prefix [update_event sys, EvWait (hProcess pu) INFINITE, EvGetExitCode (hProcess pu) c,
                 EvCloseHandle (hProcess pu), EvCloseHandle (hThread pu), main_event sys]
           (trace sys argc argv))
   \<and> (\<forall>pi. main_result sys = Inr pi \<and> exit_code sys argc argv \<noteq> None \<longrightarrow>
         suffix [main_event sys, EvCloseHandle (hProcess pi), EvCloseHandle (hThread pi)]
           (trace sys argc argv))
   \<and> (\<forall>e. main_result sys = Inl e \<and> exit_code sys argc argv \<noteq> None \<longrightarrow>
         suffix [main_event sys, error_dialog e] (trace sys argc argv)
         \<and> open_handles [main_event sys, error_dialog e] [] = [])"
proof (cases sys rule: main_run_cases)
  case (skip_fail e e')
  then show ?thesis
    by (simp add: trace_simps [OF main_update_failed_main_failed] open_handles_events
        main_event_distinct suffix_def)
next
  case (skip_start e pi)
  then show ?thesis
    by (simp add: trace_simps [OF main_update_failed_main_started] open_handles_events
        main_event_distinct suffix_def)
next
  case (hang pu)
  then show ?thesis
    by (simp add: trace_simps [OF main_update_hangs])
next
  case (done_fail pu c e')
  then show ?thesis
    by (simp add: trace_simps [OF main_update_done_main_failed] open_handles_events
        main_event_distinct suffix_def)
next
  case (done_start pu c pi)
  then show ?thesis
    by (simp add: trace_simps [OF main_update_done_main_started] open_handles_events
        main_event_distinct suffix_def)
qed

text \<open>Instances: both processes start; neither does.\<close>

theorem handles_released_witness:
  "exit_code (tool_os (Inr pi_update) (Some 7) (Inr pi_app)) 1 [] \<noteq> None
   \<and> update_result (tool_os (Inr pi_update) (Some 7) (Inr pi_app)) = Inr pi_update
   \<and> process_exit (tool_os (Inr pi_update) (Some 7) (Inr pi_app)) (hProcess pi_update) = Some 7
   \<and> main_result (tool_os (Inr pi_update) (Some 7) (Inr pi_app)) = Inr pi_app
   \<and> open_handles (trace (tool_os (Inr pi_update) (Some 7) (Inr pi_app)) 1 []) [] = []
   \<and> open_handles
        (takeWhile (\<lambda>e. e \<noteq> main_event (tool_os (Inr pi_update) (Some 7) (Inr pi_app)))
           (trace (tool_os (Inr pi_update) (Some 7) (Inr pi_app)) 1 [])) [] = []
   \<and> prefix [update_event (tool_os (Inr pi_update) (Some 7) (Inr pi_app)),
              EvWait (hProcess pi_update) INFINITE, EvGetExitCode (hProcess pi_update) 7,
              EvCloseHandle (hProcess pi_update), EvCloseHandle (hThread pi_update),
              main_event (tool_os (Inr pi_update) (Some 7) (Inr pi_app))]
        (trace (tool_os (Inr pi_update) (Some 7) (Inr pi_app)) 1 [])
   \<and> suffix [main_event (tool_os (Inr pi_update) (Some 7) (Inr pi_app)),
              EvCloseHandle (hProcess pi_app), EvCloseHandle (hThread pi_app)]
        (trace (tool_os (Inr pi_update) (Some 7) (Inr pi_app)) 1 [])
   \<and> main_result (tool_os (Inl 2) None (Inl 2)) = Inl 2
   \<and> exit_code (tool_os (Inl 2) None (Inl 2)) 1 [] \<noteq> None
   \<and> suffix [main_event (tool_os (Inl 2) None (Inl 2)), error_dialog 2]
        (trace (tool_os (Inl 2) None (Inl 2)) 1 [])
   \<and> open_handles (trace (tool_os (Inl 2) None (Inl 2)) 1 []) [] = []"
proof -
  have both: "exit_code (tool_os (Inr pi_update) (Some 7) (Inr pi_app)) 1 [] \<noteq> None"
    by (simp add: trace_simps [OF main_update_done_main_started] tool_os_answers)
  have none: "exit_code (tool_os (Inl 2) None (Inl 2)) 1 [] \<noteq> None"
    by (simp add: trace_simps [OF main_update_failed_main_failed] tool_os_answers)
  show ?thesis
    using both none
      handles_released [of "tool_os (Inr pi_update) (Some 7) (Inr pi_app)" 1 "[]"]
      handles_released [of "tool_os (Inl 2) None (Inl 2)" 1 "[]"]
    by (simp add: tool_os_answers)
qed

text \<open>
  C8 (arguments are ignored). The result of \<^verbatim>\<open>main\<close>, that is its exit code and every
  event of the run, is the same for any two argument vectors.
\<close>

theorem main_ignores_arguments:
  "main sys argc argv = main sys argc' argv'"
  by (simp add: main_def)

text \<open>
  C9 (install directory). The install directory is the module path cut at its last
  backslash: for a module path \<^verbatim>\<open>a\b\<close> with no backslash in \<open>b\<close>, the update request is
  made with current directory \<open>a\<close> and the script path built from \<open>a\<close>, the
  main-application request with current directory \<open>a\<close> and the command line built from
  \<open>a\<close>, and every process request of the run has current directory \<open>a\<close> and one of these
  two command lines. A module path without a backslash is the install directory as it
  is: the same holds with the whole path in place of \<open>a\<close>.
\<close>

theorem install_directory_resolution:
  "(\<forall>a b. GetModuleFileNameA sys MAX_PATH = a @ bslash # b \<and> bslash \<notin> set b \<longrightarrow>
        install_directory sys = a
        \<and> hd (trace sys argc argv) =
            EvCreateProcess
              (''cmd /c '' @ dquote # snprintf MAX_PATH (a @ bslash # ''update.bat'') @ [dquote])
              CREATE_NO_WINDOW a
              (create_process sys 0
                 (''cmd /c '' @ dquote # snprintf MAX_PATH (a @ bslash # ''update.bat'') @ [dquote])
                 CREATE_NO_WINDOW a)
        \<and> (exit_code sys argc argv \<noteq> None \<longrightarrow>
            EvCreateProcess (dquote # a @ bslash # ''SIP Toast.exe'' @ [dquote])
              (NORMAL_PRIORITY_CLASS OR CREATE_NEW_CONSOLE) a
              (create_process sys 1 (dquote # a @ bslash # ''SIP Toast.exe'' @ [dquote])
                 (NORMAL_PRIORITY_CLASS OR CREATE_NEW_CONSOLE) a)
            \<in> set (trace sys argc argv))
        \<and> (\<forall>cmd fl dir r. EvCreateProcess cmd fl dir r \<in> set (trace sys argc argv) \<longrightarrow>
              dir = a
              \<and> (cmd = ''cmd /c '' @ dquote # snprintf MAX_PATH (a @ bslash # ''update.bat'') @ [dquote]
                 \<or> cmd = dquote # a @ bslash # ''SIP Toast.exe'' @ [dquote])))
   \<and> (bslash \<notin> set (GetModuleFileNameA sys MAX_PATH) \<longrightarrow>
        install_directory sys = GetModuleFileNameA sys MAX_PATH
        \<and> hd (trace sys argc argv) =
            EvCreateProcess
              (''cmd /c '' @ dquote #
                 snprintf MAX_PATH (GetModuleFileNameA sys MAX_PATH @ bslash # ''update.bat'') @ [dquote])
              CREATE_NO_WINDOW (GetModuleFileNameA sys MAX_PATH)
              (create_process sys 0
                 (''cmd /c '' @ dquote #
                    snprintf MAX_PATH (GetModuleFileNameA sys MAX_PATH @ bslash # ''update.bat'') @ [dquote])
                 CREATE_NO_WINDOW (GetModuleFileNameA sys MAX_PATH))
        \<and> (exit_code sys argc argv \<noteq> None \<longrightarrow>
            EvCreateProcess
              (dquote # GetModuleFileNameA sys MAX_PATH @ bslash # ''SIP Toast.exe'' @ [dquote])
              (NORMAL_PRIORITY_CLASS OR CREATE_NEW_CONSOLE) (GetModuleFileNameA sys MAX_PATH)
              (create_process sys 1
                 (dquote # GetModuleFileNameA sys MAX_PATH @ bslash # ''SIP Toast.exe'' @ [dquote])
                 (NORMAL_PRIORITY_CLASS OR CREATE_NEW_CONSOLE) (GetModuleFileNameA sys MAX_PATH))
            \<in> set (trace sys argc argv))
        \<and> (\<forall>cmd fl dir r. EvCreateProcess cmd fl dir r \<in> set (trace sys argc argv) \<longrightarrow>
              dir = GetModuleFileNameA sys MAX_PATH
              \<and> (cmd = ''cmd /c '' @ dquote #
                     snprintf MAX_PATH (GetModuleFileNameA sys MAX_PATH @ bslash # ''update.bat'')
                     @ [dquote]
                 \<or> cmd = dquote # GetModuleFileNameA sys MAX_PATH @ bslash # ''SIP Toast.exe''
                     @ [dquote])))"
proof -
  have run: "hd (trace sys argc argv) =
            EvCreateProcess
              (''cmd /c '' @ dquote # snprintf MAX_PATH (d @ bslash # ''update.bat'') @ [dquote])
              CREATE_NO_WINDOW d
              (create_process sys 0
                 (''cmd /c '' @ dquote # snprintf MAX_PATH (d @ bslash # ''update.bat'') @ [dquote])
                 CREATE_NO_WINDOW d)
        \<and> (exit_code sys argc argv \<noteq> None \<longrightarrow>
            EvCreateProcess (dquote # d @ bslash # ''SIP Toast.exe'' @ [dquote])
              (NORMAL_PRIORITY_CLASS OR CREATE_NEW_CONSOLE) d
              (create_process sys 1 (dquote # d @ bslash # ''SIP Toast.exe'' @ [dquote])
                 (NORMAL_PRIORITY_CLASS OR CREATE_NEW_CONSOLE) d)
            \<in> set (trace sys argc argv))
        \<and> (\<forall>cmd fl dir r. EvCreateProcess cmd fl dir r \<in> set (trace sys argc argv) \<longrightarrow>
              dir = d
              \<and> (cmd = ''cmd /c '' @ dquote # snprintf MAX_PATH (d @ bslash # ''update.bat'') @ [dquote]
                 \<or> cmd = dquote # d @ bslash # ''SIP Toast.exe'' @ [dquote]))"
    if dir: "install_directory sys = d" for d
  proof -
    have "length d < MAX_PATH"
      using length_install_directory [of sys] by (simp add: dir)
    then have app: "main_cmdLine d = dquote # d @ bslash # ''SIP Toast.exe'' @ [dquote]"
      by (rule main_cmdLine_fits)
    have upd: "update_cmdLine d =
        ''cmd /c '' @ dquote # snprintf MAX_PATH (d @ bslash # ''update.bat'') @ [dquote]"
      by (simp add: update_cmdLine_fits batchPath_of_def)
    have first: "hd (trace sys argc argv) =
            EvCreateProcess
              (''cmd /c '' @ dquote # snprintf MAX_PATH (d @ bslash # ''update.bat'') @ [dquote])
              CREATE_NO_WINDOW d
              (create_process sys 0
                 (''cmd /c '' @ dquote # snprintf MAX_PATH (d @ bslash # ''update.bat'') @ [dquote])
                 CREATE_NO_WINDOW d)"
      by (simp add: hd_trace update_event_def update_result_def dir upd)
    have second: "exit_code sys argc argv \<noteq> None \<longrightarrow>
            EvCreateProcess (dquote # d @ bslash # ''SIP Toast.exe'' @ [dquote])
              (NORMAL_PRIORITY_CLASS OR CREATE_NEW_CONSOLE) d
              (create_process sys 1 (dquote # d @ bslash # ''SIP Toast.exe'' @ [dquote])
                 (NORMAL_PRIORITY_CLASS OR CREATE_NEW_CONSOLE) d)
            \<in> set (trace sys argc argv)"
      using mem_trace_main_event [of sys argc argv]
      by (simp add: main_event_def main_result_def dir app)
    have every: "\<forall>cmd fl dir r. EvCreateProcess cmd fl dir r \<in> set (trace sys argc argv) \<longrightarrow>
              dir = d
              \<and> (cmd = ''cmd /c '' @ dquote # snprintf MAX_PATH (d @ bslash # ''update.bat'') @ [dquote]
                 \<or> cmd = dquote # d @ bslash # ''SIP Toast.exe'' @ [dquote])"
      using upd app by (auto dest!: spawns_of_trace simp: update_event_def main_event_def dir)
    from first second every show ?thesis by blast
  qed
  have cut: "install_directory sys = a"
    if "GetModuleFileNameA sys MAX_PATH = a @ bslash # b \<and> bslash \<notin> set b" for a b
    using that by (simp add: install_directory_def strrchr_last)
  have whole: "install_directory sys = GetModuleFileNameA sys MAX_PATH"
    if "bslash \<notin> set (GetModuleFileNameA sys MAX_PATH)"
    using that by (simp add: install_directory_def strrchr_None [THEN iffD2])
  {
    fix a b
    assume path: "GetModuleFileNameA sys MAX_PATH = a @ bslash # b \<and> bslash \<notin> set b"
    from cut [OF path] run [OF cut [OF path]]
    have "install_directory sys = a
        \<and> hd (trace sys argc argv) =
            EvCreateProcess
              (''cmd /c '' @ dquote # snprintf MAX_PATH (a @ bslash # ''update.bat'') @ [dquote])
              CREATE_NO_WINDOW a
              (create_process sys 0
                 (''cmd /c '' @ dquote # snprintf MAX_PATH (a @ bslash # ''update.bat'') @ [dquote])
                 CREATE_NO_WINDOW a)
        \<and> (exit_code sys argc argv \<noteq> None \<longrightarrow>
            EvCreateProcess (dquote # a @ bslash # ''SIP Toast.exe'' @ [dquote])
              (NORMAL_PRIORITY_CLASS OR CREATE_NEW_CONSOLE) a
              (create_process sys 1 (dquote # a @ bslash # ''SIP Toast.exe'' @ [dquote])
                 (NORMAL_PRIORITY_CLASS OR CREATE_NEW_CONSOLE) a)
            \<in> set (trace sys argc argv))
        \<and> (\<forall>cmd fl dir r. EvCreateProcess cmd fl dir r \<in> set (trace sys argc argv) \<longrightarrow>
              dir = a
              \<and> (cmd = ''cmd /c '' @ dquote # snprintf MAX_PATH (a @ bslash # ''update.bat'') @ [dquote]
                 \<or> cmd = dquote # a @ bslash # ''SIP Toast.exe'' @ [dquote]))"
      by blast
  }
  moreover
  {
    assume none: "bslash \<notin> set (GetModuleFileNameA sys MAX_PATH)"
    from whole [OF none] run [OF whole [OF none]]
    have "install_directory sys = GetModuleFileNameA sys MAX_PATH
        \<and> hd (trace sys argc argv) =
            EvCreateProcess
              (''cmd /c '' @ dquote #
                 snprintf MAX_PATH (GetModuleFileNameA sys MAX_PATH @ bslash # ''update.bat'') @ [dquote])
              CREATE_NO_WINDOW (GetModuleFileNameA sys MAX_PATH)
              (create_process sys 0
                 (''cmd /c '' @ dquote #
                    snprintf MAX_PATH (GetModuleFileNameA sys MAX_PATH @ bslash # ''update.bat'') @ [dquote])
                 CREATE_NO_WINDOW (GetModuleFileNameA sys MAX_PATH))
        \<and> (exit_code sys argc argv \<noteq> None \<longrightarrow>
            EvCreateProcess
              (dquote # GetModuleFileNameA sys MAX_PATH @ bslash # ''SIP Toast.exe'' @ [dquote])
              (NORMAL_PRIORITY_CLASS OR CREATE_NEW_CONSOLE) (GetModuleFileNameA sys MAX_PATH)
              (create_process sys 1
                 (dquote # GetModuleFileNameA sys MAX_PATH @ bslash # ''SIP Toast.exe'' @ [dquote])
                 (NORMAL_PRIORITY_CLASS OR CREATE_NEW_CONSOLE) (GetModuleFileNameA sys MAX_PATH))
            \<in> set (trace sys argc argv))
        \<and> (\<forall>cmd fl dir r. EvCreateProcess cmd fl dir r \<in> set (trace sys argc argv) \<longrightarrow>
              dir = GetModuleFileNameA sys MAX_PATH
              \<and> (cmd = ''cmd /c '' @ dquote #
                     snprintf MAX_PATH (GetModuleFileNameA sys MAX_PATH @ bslash # ''update.bat'')
                     @ [dquote]
                 \<or> cmd = dquote # GetModuleFileNameA sys MAX_PATH @ bslash # ''SIP Toast.exe''
                     @ [dquote]))"
      by blast
  }
  ultimately show ?thesis
    by blast
qed

text \<open>
  Instances: the launcher run as \<^verbatim>\<open>C:\Apps\Tool\update.exe\<close> works in \<^verbatim>\<open>C:\Apps\Tool\<close>, and
  run under the bare name \<^verbatim>\<open>update.exe\<close> it works in \<^verbatim>\<open>update.exe\<close>; in both the update
  step is missing and the main application starts.
\<close>

theorem install_directory_resolution_witness:
  "GetModuleFileNameA (tool_os (Inl 2) None (Inr pi_app)) MAX_PATH = tool_dir @ bslash # ''update.exe''
   \<and> bslash \<notin> set ''update.exe''
   \<and> exit_code (tool_os (Inl 2) None (Inr pi_app)) 1 [] \<noteq> None
   \<and> install_directory (tool_os (Inl 2) None (Inr pi_app)) = tool_dir
   \<and> hd (trace (tool_os (Inl 2) None (Inr pi_app)) 1 []) =
       EvCreateProcess (''cmd /c '' @ dquote # tool_dir @ bslash # ''update.bat'' @ [dquote])
         CREATE_NO_WINDOW tool_dir (Inl 2)
   \<and> EvCreateProcess (dquote # tool_dir @ bslash # ''SIP Toast.exe'' @ [dquote])
        (NORMAL_PRIORITY_CLASS OR CREATE_NEW_CONSOLE) tool_dir (Inr pi_app)
      \<in> set (trace (tool_os (Inl 2) None (Inr pi_app)) 1 [])
   \<and> bslash \<notin> set (GetModuleFileNameA bare_os MAX_PATH)
   \<and> exit_code bare_os 1 [] \<noteq> None
   \<and> install_directory bare_os = ''update.exe''
   \<and> hd (trace bare_os 1 []) =
       EvCreateProcess (''cmd /c '' @ dquote # ''update.exe'' @ bslash # ''update.bat'' @ [dquote])
         CREATE_NO_WINDOW ''update.exe'' (Inl 2)
   \<and> EvCreateProcess (dquote # ''update.exe'' @ bslash # ''SIP Toast.exe'' @ [dquote])
        (NORMAL_PRIORITY_CLASS OR CREATE_NEW_CONSOLE) ''update.exe''
        (Inr \<lparr>hProcess = 12, hThread = 16\<rparr>)
      \<in> set (trace bare_os 1 [])"
proof -
  let ?tool = "tool_os (Inl 2) None (Inr pi_app)"
  have slash: "GetModuleFileNameA ?tool MAX_PATH = tool_dir @ bslash # ''update.exe''
      \<and> bslash \<notin> set ''update.exe''"
    by (simp add: module_path_tool_os bslash_def)
  have tool_returns: "exit_code ?tool 1 [] \<noteq> None"
    by (simp add: trace_simps [OF main_update_failed_main_started] tool_os_answers)
  have bare: "bslash \<notin> set (GetModuleFileNameA bare_os MAX_PATH)"
    by (simp add: module_path_bare_os bslash_def)
  have bare_returns: "exit_code bare_os 1 [] \<noteq> None"
    by (simp add: trace_simps [OF main_update_failed_main_started] bare_os_answers)
  have tool_fits: "snprintf MAX_PATH (tool_dir @ bslash # ''update.bat'') =
      tool_dir @ bslash # ''update.bat''"
    by (simp add: snprintf_def MAX_PATH_def tool_dir_def)
  have bare_fits: "snprintf MAX_PATH (''update.exe'' @ bslash # ''update.bat'') =
      ''update.exe'' @ bslash # ''update.bat''"
    by (simp add: snprintf_def MAX_PATH_def)
  have tool_answers: "create_process ?tool 0 cmd fl dir = Inl 2"
    "create_process ?tool (Suc 0) cmd fl dir = Inr pi_app" for cmd fl dir
    by (simp_all add: tool_os_def)
  have bare_answers: "create_process bare_os 0 cmd fl dir = Inl 2"
    "create_process bare_os (Suc 0) cmd fl dir = Inr \<lparr>hProcess = 12, hThread = 16\<rparr>" for cmd fl dir
    by (simp_all add: bare_os_def)
  from install_directory_resolution [of ?tool 1 "[]"] slash
  have "install_directory ?tool = tool_dir
        \<and> hd (trace ?tool 1 []) =
            EvCreateProcess
              (''cmd /c '' @ dquote # snprintf MAX_PATH (tool_dir @ bslash # ''update.bat'') @ [dquote])
              CREATE_NO_WINDOW tool_dir
              (create_process ?tool 0
                 (''cmd /c '' @ dquote # snprintf MAX_PATH (tool_dir @ bslash # ''update.bat'') @ [dquote])
                 CREATE_NO_WINDOW tool_dir)
        \<and> (exit_code ?tool 1 [] \<noteq> None \<longrightarrow>
            EvCreateProcess (dquote # tool_dir @ bslash # ''SIP Toast.exe'' @ [dquote])
              (NORMAL_PRIORITY_CLASS OR CREATE_NEW_CONSOLE) tool_dir
              (create_process ?tool 1 (dquote # tool_dir @ bslash # ''SIP Toast.exe'' @ [dquote])
                 (NORMAL_PRIORITY_CLASS OR CREATE_NEW_CONSOLE) tool_dir)
            \<in> set (trace ?tool 1 []))"
    by blast
  with tool_returns have tool: "install_directory ?tool = tool_dir
      \<and> hd (trace ?tool 1 []) =
          EvCreateProcess (''cmd /c '' @ dquote # tool_dir @ bslash # ''update.bat'' @ [dquote])
            CREATE_NO_WINDOW tool_dir (Inl 2)
      \<and> EvCreateProcess (dquote # tool_dir @ bslash # ''SIP Toast.exe'' @ [dquote])
           (NORMAL_PRIORITY_CLASS OR CREATE_NEW_CONSOLE) tool_dir (Inr pi_app)
         \<in> set (trace ?tool 1 [])"
    by (simp add: tool_fits tool_answers)
  from install_directory_resolution [of bare_os 1 "[]"] bare bare_returns
  have "install_directory bare_os = ''update.exe''
    \<and> hd (trace bare_os 1 []) =
       EvCreateProcess (''cmd /c '' @ dquote # ''update.exe'' @ bslash # ''update.bat'' @ [dquote])
         CREATE_NO_WINDOW ''update.exe'' (Inl 2)
    \<and> EvCreateProcess (dquote # ''update.exe'' @ bslash # ''SIP Toast.exe'' @ [dquote])
        (NORMAL_PRIORITY_CLASS OR CREATE_NEW_CONSOLE) ''update.exe''
        (Inr \<lparr>hProcess = 12, hThread = 16\<rparr>)
      \<in> set (trace bare_os 1 [])"
    using bare_fits by (simp add: module_path_bare_os bare_answers)
  with tool show ?thesis
    using slash tool_returns bare bare_returns by blast
qed

text \<open>
  C10 (bounded construction). For every directory string \<open>d\<close> and error code \<open>e\<close>, each
  string the launcher formats is a prefix of the full text and shorter than its buffer
  (\<open>MAX_PATH\<close> for the script path, \<open>2 * MAX_PATH\<close> for each command line, 256 for the
  message), so it fits together with its terminating NUL. Every command line and dialog
  text of a run is one of these strings. For the install directory \<open>long_dir\<close> the
  update command line carries the cut script path.
\<close>

theorem bounded_string_construction:
  "length (batchPath_of d) < MAX_PATH
   \<and> prefix (batchPath_of d) (d @ bslash # ''update.bat'')
   \<and> length (update_cmdLine d) < MAX_PATH * 2
   \<and> prefix (update_cmdLine d) (''cmd /c '' @ dquote # batchPath_of d @ [dquote])
   \<and> length (main_cmdLine d) < MAX_PATH * 2
   \<and> prefix (main_cmdLine d) (dquote # d @ bslash # ''SIP Toast.exe'' @ [dquote])
   \<and> length (errorMsg_of e) < 256
   \<and> prefix (errorMsg_of e) (''Failed to launch SIP Toast.exe (Error: '' @ fmt_lu (unat e) @ '')'')
   \<and> (\<forall>cmd fl dir r. EvCreateProcess cmd fl dir r \<in> set (trace sys argc argv) \<longrightarrow>
         (cmd = update_cmdLine (install_directory sys) \<or> cmd = main_cmdLine (install_directory sys))
         \<and> length cmd < MAX_PATH * 2)
   \<and> (\<forall>txt cap ty. EvMessageBox txt cap ty \<in> set (trace sys argc argv) \<longrightarrow>
         (\<exists>e'. txt = errorMsg_of e') \<and> length txt < 256)
   \<and> install_directory long_path_os = long_dir
   \<and> update_cmdLine long_dir = ''cmd /c '' @ dquote # long_dir @ bslash # ''updat'' @ [dquote]
   \<and> update_cmdLine long_dir \<noteq> ''cmd /c '' @ dquote # long_dir @ bslash # ''update.bat'' @ [dquote]"
proof -
  have mp: "0 < MAX_PATH" "0 < MAX_PATH * 2"
    by (simp_all add: MAX_PATH_def)
  have strings: "length (batchPath_of d) < MAX_PATH"
    "prefix (batchPath_of d) (d @ bslash # ''update.bat'')"
    "prefix (update_cmdLine d) (''cmd /c '' @ dquote # batchPath_of d @ [dquote])"
    "prefix (main_cmdLine d) (dquote # d @ bslash # ''SIP Toast.exe'' @ [dquote])"
    "length (errorMsg_of e) < 256"
    "prefix (errorMsg_of e) (''Failed to launch SIP Toast.exe (Error: '' @ fmt_lu (unat e) @ '')'')"
    by (simp_all add: batchPath_of_def update_cmdLine_def main_cmdLine_def errorMsg_of_def
        snprintf_bounded snprintf_prefix mp)
  have cmds: "\<And>d. length (update_cmdLine d) < MAX_PATH * 2" "\<And>d. length (main_cmdLine d) < MAX_PATH * 2"
    by (simp_all add: update_cmdLine_def main_cmdLine_def snprintf_bounded mp)
  have spawns: "\<forall>cmd fl dir r. EvCreateProcess cmd fl dir r \<in> set (trace sys argc argv) \<longrightarrow>
         (cmd = update_cmdLine (install_directory sys) \<or> cmd = main_cmdLine (install_directory sys))
         \<and> length cmd < MAX_PATH * 2"
    using cmds by (auto dest!: spawns_of_trace simp: update_event_def main_event_def)
  have dialogs: "\<forall>txt cap ty. EvMessageBox txt cap ty \<in> set (trace sys argc argv) \<longrightarrow>
         (\<exists>e'. txt = errorMsg_of e') \<and> length txt < 256"
    by (auto dest!: dialogs_of_trace simp: error_dialog_def errorMsg_of_def snprintf_bounded)
  have cut: "update_cmdLine long_dir \<noteq> ''cmd /c '' @ dquote # long_dir @ bslash # ''update.bat'' @ [dquote]"
    by (simp add: update_cmdLine_long_dir)
  show ?thesis
    using strings cmds spawns dialogs cut install_directory_long_path_os update_cmdLine_long_dir
    by blast
qed

text \<open>Instance: the 253-character install directory, where the script path is cut.\<close>

theorem bounded_string_construction_witness:
  "MAX_PATH \<le> length (long_dir @ bslash # ''update.bat'')
   \<and> length (batchPath_of long_dir) < MAX_PATH
   \<and> prefix (batchPath_of long_dir) (long_dir @ bslash # ''update.bat'')
   \<and> EvCreateProcess (update_cmdLine long_dir) CREATE_NO_WINDOW long_dir (Inl 2)
       \<in> set (trace long_path_os 1 [])
   \<and> length (update_cmdLine long_dir) < MAX_PATH * 2
   \<and> EvMessageBox (errorMsg_of 2) ''Update Launcher Error'' (MB_OK OR MB_ICONERROR)
       \<in> set (trace long_path_os 1 [])
   \<and> length (errorMsg_of 2) < 256"
proof -
  have long: "MAX_PATH \<le> length (long_dir @ bslash # ''update.bat'')"
    by (simp add: length_long_dir MAX_PATH_def)
  have spawn: "EvCreateProcess (update_cmdLine long_dir) CREATE_NO_WINDOW long_dir (Inl 2)
       \<in> set (trace long_path_os 1 [])"
    using mem_trace_update_event [of long_path_os 1 "[]"]
    by (simp add: update_event_def install_directory_long_path_os long_path_os_answers)
  have dialog: "EvMessageBox (errorMsg_of 2) ''Update Launcher Error'' (MB_OK OR MB_ICONERROR)
       \<in> set (trace long_path_os 1 [])"
    by (simp add: trace_simps [OF main_update_failed_main_failed] long_path_os_answers
        error_dialog_def)
  from bounded_string_construction [of long_dir 2 long_path_os 1 "[]"] long spawn dialog
  show ?thesis by blast
qed

end
